theory Spec2Isabelle
  imports Main "HOL-Library.Sublist"
begin

section \<open>Values on the wire\<close>

text \<open>
  The payloads and query parameters that \<^verbatim>\<open>NotificationClient\<close> builds are Python
  dictionaries, lists, strings, integers, booleans and \<^verbatim>\<open>None\<close>. A dictionary keeps
  its keys in insertion order, so an object is an association list in that order.
\<close>

datatype json =
    JNull
  | JBool bool
  | JInt int
  | JStr string
  | JList "json list"
  | JObj "(string \<times> json) list"

text \<open>
  \<^verbatim>\<open>d[k] = v\<close> on a dictionary: an existing key keeps its position and takes the new
  value, a new key goes to the end.
\<close>

fun setitem :: "(string \<times> json) list \<Rightarrow> string \<Rightarrow> json \<Rightarrow> (string \<times> json) list" where
  "setitem [] k v = [(k, v)]"
| "setitem ((k', v') # d) k v = (if k' = k then (k, v) # d else (k', v') # setitem d k v)"

text \<open>\<^verbatim>\<open>d.get(k)\<close>: the value stored under a key, if any.\<close>

fun getitem :: "(string \<times> json) list \<Rightarrow> string \<Rightarrow> json option" where
  "getitem [] k = None"
| "getitem ((k', v') # d) k = (if k' = k then Some v' else getitem d k)"

text \<open>The value stored under a key of a JSON object; \<open>None\<close> when the key is absent.\<close>

fun json_get :: "json \<Rightarrow> string \<Rightarrow> json option" where
  "json_get (JObj d) k = getitem d k"
| "json_get _ k = None"

section \<open>Requests, errors and the transport\<close>

datatype http_method = GET | POST | PUT

text \<open>
  One call of \<^verbatim>\<open>Client._get\<close>, \<^verbatim>\<open>Client._post\<close> or \<^verbatim>\<open>Client._put\<close> with the keyword
  arguments the notification client passes: \<open>None\<close> is an argument left out.
\<close>

record request =
  verb :: http_method
  url :: "string option"
  params :: "json option"
  payload :: "json option"

text \<open>
  \<open>ValueError\<close> is what the client raises itself; \<open>TransportError\<close> is whatever the
  transport raises, which the client neither catches nor translates.
\<close>

datatype error = ValueError string | TransportError string

text \<open>
  The base class \<^verbatim>\<open>bioblend.galaxy.client.Client\<close> and \<^verbatim>\<open>datetime.__str__\<close> are
  taken as parameters: \<open>make_url\<close> is \<^verbatim>\<open>Client._make_url\<close> (its argument is the optional
  \<^verbatim>\<open>module_id\<close>), \<open>transport\<close> answers a request with the decoded JSON body or with
  the message of the error it raises, and \<open>datetime_str\<close> is \<^verbatim>\<open>str\<close> on the type
  \<open>'dt\<close> of timestamps.
\<close>

record 'dt client =
  make_url :: "string option \<Rightarrow> string"
  transport :: "request \<Rightarrow> string + json"
  datetime_str :: "'dt \<Rightarrow> string"

text \<open>
  What a call of the client leaves behind: the requests handed to the transport, in
  order, and the value returned (\<open>Inr\<close>) or the error raised (\<open>Inl\<close>).
\<close>

record outcome =
  requests :: "request list"
  result :: "error + json"

definition raise :: "error \<Rightarrow> outcome" where
  "raise e = \<lparr>requests = [], result = Inl e\<rparr>"

text \<open>
  Modelled from the spec: one round trip through the transport of \<^verbatim>\<open>Client\<close>, which is
  not part of the notification module. It returns the decoded JSON body, or raises the
  transport's error.
\<close>

definition perform :: "'dt client \<Rightarrow> request \<Rightarrow> outcome" where
  "perform c r =
     \<lparr>requests = [r],
      result = (case transport c r of Inl m \<Rightarrow> Inl (TransportError m) | Inr j \<Rightarrow> Inr j)\<rparr>"

text \<open>Modelled from the spec: \<^verbatim>\<open>Client._get(url, params)\<close>, a single request of its kind.\<close>

definition client_get :: "'dt client \<Rightarrow> string option \<Rightarrow> json option \<Rightarrow> outcome" where
  "client_get c u ps = perform c \<lparr>verb = GET, url = u, params = ps, payload = None\<rparr>"

text \<open>Modelled from the spec: \<^verbatim>\<open>Client._post(payload, url)\<close>, a single request of its kind.\<close>

definition client_post :: "'dt client \<Rightarrow> json \<Rightarrow> string option \<Rightarrow> outcome" where
  "client_post c p u = perform c \<lparr>verb = POST, url = u, params = None, payload = Some p\<rparr>"

text \<open>Modelled from the spec: \<^verbatim>\<open>Client._put(payload, url)\<close>, a single request of its kind.\<close>

definition client_put :: "'dt client \<Rightarrow> json \<Rightarrow> string option \<Rightarrow> outcome" where
  "client_put c p u = perform c \<lparr>verb = PUT, url = u, params = None, payload = Some p\<rparr>"

section \<open>The notification client\<close>

subsection \<open>Reading\<close>

definition get_notification_status :: "'dt client \<Rightarrow> 'dt \<Rightarrow> outcome" where
  "get_notification_status c since =
     (let u = make_url c None @ ''/status?since='' @ datetime_str c since
      in client_get c (Some u) None)"

definition get_notification_preferences :: "'dt client \<Rightarrow> outcome" where
  "get_notification_preferences c =
     (let u = make_url c (Some ''preferences'')
      in client_get c (Some u) None)"

definition show_notification :: "'dt client \<Rightarrow> string \<Rightarrow> outcome" where
  "show_notification c notification_id =
     (let u = make_url c None @ ''/'' @ notification_id
      in client_get c (Some u) None)"

subsection \<open>Preferences\<close>

definition update_notification_preferences ::
  "'dt client \<Rightarrow> bool \<Rightarrow> bool \<Rightarrow> bool \<Rightarrow> bool \<Rightarrow> outcome" where
  "update_notification_preferences c message_notifications push_notifications_message
       new_item_notifications push_notifications_new_items =
     (let u = make_url c (Some ''preferences'');
          p = JObj [(''preferences'', JObj
                [(''message'', JObj
                    [(''enabled'', JBool message_notifications),
                     (''channels'', JObj [(''push'', JBool push_notifications_message)])]),
                 (''new_shared_item'', JObj
                    [(''enabled'', JBool new_item_notifications),
                     (''channels'', JObj [(''push'', JBool push_notifications_new_items)])])])]
      in client_put c p (Some u))"

subsection \<open>Listing\<close>

text \<open>
  An argument of a call whose default is not \<^verbatim>\<open>None\<close>: left out, or given (possibly as
  \<^verbatim>\<open>None\<close>). Where the default is \<^verbatim>\<open>None\<close> the two cases are the same to the callee and
  the parameter is a plain \<open>option\<close>.
\<close>

datatype 'a arg = Omitted | Given 'a

fun arg_or :: "'a \<Rightarrow> 'a arg \<Rightarrow> 'a" where
  "arg_or d Omitted = d"
| "arg_or d (Given x) = x"

fun json_of_int :: "int option \<Rightarrow> json" where
  "json_of_int None = JNull"
| "json_of_int (Some n) = JInt n"

definition get_user_notifications :: "'dt client \<Rightarrow> int option arg \<Rightarrow> int option \<Rightarrow> outcome" where
  "get_user_notifications c limit_arg offset =
     (let limit = arg_or (Some 20) limit_arg;
          ps = JObj [(''limit'', json_of_int limit), (''offset'', json_of_int offset)]
      in client_get c None (Some ps))"

subsection \<open>Sending\<close>

text \<open>\<^verbatim>\<open>xs or []\<close> on an optional list: \<^verbatim>\<open>None\<close> and the empty list are both falsy.\<close>

definition or_empty :: "'a list option \<Rightarrow> 'a list" where
  "or_empty x = (case x of None \<Rightarrow> [] | Some xs \<Rightarrow> (if xs \<noteq> [] then xs else []))"

definition json_of_ids :: "string list \<Rightarrow> json" where
  "json_of_ids ids = JList (map JStr ids)"

text \<open>
  \<^verbatim>\<open>if t: d[k] = str(t)\<close> on an optional timestamp: an instance of \<^verbatim>\<open>datetime\<close> is
  always truthy, so the key is set exactly when the argument is not \<^verbatim>\<open>None\<close>.
\<close>

definition set_time ::
  "'dt client \<Rightarrow> string \<Rightarrow> 'dt option \<Rightarrow> (string \<times> json) list \<Rightarrow> (string \<times> json) list" where
  "set_time c k t d = (case t of None \<Rightarrow> d | Some x \<Rightarrow> setitem d k (JStr (datetime_str c x)))"

text \<open>
  The chained comparison \<^verbatim>\<open>user_ids == group_ids == role_ids == []\<close> is the conjunction
  of its three links, and \<^verbatim>\<open>None\<close> is not equal to the empty list.
\<close>

definition send_notification ::
  "'dt client \<Rightarrow> string \<Rightarrow> string \<Rightarrow> string \<Rightarrow> string \<Rightarrow> 'dt option \<Rightarrow> 'dt option \<Rightarrow>
   string list option \<Rightarrow> string list option \<Rightarrow> string list option \<Rightarrow> outcome" where
  "send_notification c source variant subject message publication_time expiration_time
       user_ids group_ids role_ids =
     (if user_ids = group_ids \<and> group_ids = role_ids \<and> role_ids = Some []
      then raise (ValueError ''The message has no recipients.'')
      else
        let recipients =
              [(''user_ids'', json_of_ids (or_empty user_ids)),
               (''group_ids'', json_of_ids (or_empty group_ids)),
               (''role_ids'', json_of_ids (or_empty role_ids))];
            content =
              [(''source'', JStr source),
               (''variant'', JStr variant),
               (''category'', JStr ''message''),
               (''content'', JObj
                  [(''category'', JStr ''message''),
                   (''subject'', JStr subject),
                   (''message'', JStr message)])];
            content = set_time c ''expiration_time'' expiration_time content;
            content = set_time c ''publication_time'' publication_time content;
            notification = JObj [(''recipients'', JObj recipients), (''notification'', JObj content)]
        in client_post c notification None)"

subsection \<open>Broadcasting\<close>

text \<open>
  The loop over \<^verbatim>\<open>action_links.items()\<close>: the pairs in insertion order, \<open>links\<close> the list
  built so far. \<^verbatim>\<open>v[:7]\<close> is the string's first seven characters, or all of it when
  it is shorter.
\<close>

fun format_links :: "(string \<times> string) list \<Rightarrow> json list \<Rightarrow> error + json list" where
  "format_links [] links = Inr links"
| "format_links ((k, v) # kvs) links =
     (if take 7 v \<noteq> ''http://'' \<and> take 8 v \<noteq> ''https://''
      then Inl (ValueError (''Link '' @ v @ '' is not a valid URL.''))
      else format_links kvs (links @ [JObj [(''action_name'', JStr k), (''link'', JStr v)]]))"

text \<open>
  \<open>action_links\<close> is an optional dictionary from titles to links, given as its items in
  insertion order; \<^verbatim>\<open>if action_links:\<close> is false for \<^verbatim>\<open>None\<close> and for the empty
  dictionary. The source also stores \<open>content\<close> into a first \<^verbatim>\<open>broadcast\<close> dictionary,
  which the dictionary literal that follows replaces before it is read.
\<close>

definition broadcast_notification ::
  "'dt client \<Rightarrow> string \<Rightarrow> string \<Rightarrow> string \<Rightarrow> string \<Rightarrow> (string \<times> string) list option \<Rightarrow>
   'dt option \<Rightarrow> 'dt option \<Rightarrow> outcome" where
  "broadcast_notification c source variant subject message action_links publication_time
       expiration_time =
     (let content =
            [(''category'', JStr ''broadcast''),
             (''subject'', JStr subject),
             (''message'', JStr message)];
          formatted =
            (case action_links of
               None \<Rightarrow> Inr content
             | Some kvs \<Rightarrow>
                 if kvs \<noteq> [] then
                   (case format_links kvs [] of
                      Inl e \<Rightarrow> Inl e
                    | Inr links \<Rightarrow> Inr (setitem content ''action_links'' (JList links)))
                 else Inr content)
      in case formatted of
           Inl e \<Rightarrow> raise e
         | Inr content \<Rightarrow>
             let broadcast =
                   [(''source'', JStr source),
                    (''variant'', JStr variant),
                    (''category'', JStr ''broadcast''),
                    (''content'', JObj content)];
                 broadcast = set_time c ''expiration_time'' expiration_time broadcast;
                 broadcast = set_time c ''publication_time'' publication_time broadcast;
                 u = make_url c (Some ''broadcast'')
             in client_post c (JObj broadcast) (Some u))"

section \<open>Vocabulary of the specification\<close>

text \<open>
  The specification's "link starts with \<^verbatim>\<open>http://\<close> or \<^verbatim>\<open>https://\<close>", stated with the
  prefix order on strings rather than with the slices the code compares.
\<close>

definition http_link :: "string \<Rightarrow> bool" where
  "http_link v \<longleftrightarrow> prefix ''http://'' v \<or> prefix ''https://'' v"

text \<open>
  The specification's \<^verbatim>\<open>expiration_time?\<close> and \<^verbatim>\<open>publication_time?\<close>: a key of an
  object that is present exactly when a value is supplied.
\<close>

fun optional_field :: "string \<Rightarrow> string option \<Rightarrow> (string \<times> json) list" where
  "optional_field k None = []"
| "optional_field k (Some s) = [(k, JStr s)]"

text \<open>One element of the \<^verbatim>\<open>action_links\<close> sequence of a broadcast.\<close>

definition link_entry :: "string \<times> string \<Rightarrow> json" where
  "link_entry kv = JObj [(''action_name'', JStr (fst kv)), (''link'', JStr (snd kv))]"

section \<open>An instance for concrete evaluation\<close>

text \<open>
  A client whose timestamps are given by their string form, whose base URL is
  \<^verbatim>\<open>/api/notifications\<close> and whose transport answers every request with the same body.
\<close>

definition example_client :: "string client" where
  "example_client =
     \<lparr>make_url = (\<lambda>m. case m of None \<Rightarrow> ''/api/notifications''
                              | Some i \<Rightarrow> ''/api/notifications/'' @ i),
      transport = (\<lambda>r. Inr (JObj [(''ok'', JBool True)])),
      datetime_str = (\<lambda>t. t)\<rparr>"

section \<open>Auxiliary facts\<close>

subsection \<open>Dictionaries\<close>

lemma setitem_fresh: "k \<notin> fst ` set d \<Longrightarrow> setitem d k v = d @ [(k, v)]"
  by (induction d) auto

lemma set_time_fresh:
  "k \<notin> fst ` set d \<Longrightarrow> set_time c k t d = d @ optional_field k (map_option (datetime_str c) t)"
  by (cases t) (simp_all add: set_time_def setitem_fresh)

lemma json_get_content:
  "json_get (JObj ([(''source'', a), (''variant'', b), (''category'', d), (''content'', x)]
       @ optional_field ''expiration_time'' et @ optional_field ''publication_time'' pt)) ''content''
   = Some x"
  by (cases et; cases pt) simp_all

lemma or_empty_eq: "or_empty x = (case x of None \<Rightarrow> [] | Some xs \<Rightarrow> xs)"
  by (simp add: or_empty_def split: option.splits)

subsection \<open>The link check\<close>

lemma take_eq_iff_prefix: "take (length p) v = p \<longleftrightarrow> prefix p v"
  by (metis append_take_drop_id prefixI prefixE append_eq_conv_conj)

lemma link_check_iff: "(take 7 v \<noteq> ''http://'' \<and> take 8 v \<noteq> ''https://'') \<longleftrightarrow> \<not> http_link v"
proof -
  have l7: "length ''http://'' = 7" and l8: "length ''https://'' = 8"
    by simp_all
  have "take 7 v = ''http://'' \<longleftrightarrow> prefix ''http://'' v"
    using take_eq_iff_prefix [of "''http://''" v] unfolding l7 .
  moreover have "take 8 v = ''https://'' \<longleftrightarrow> prefix ''https://'' v"
    using take_eq_iff_prefix [of "''https://''" v] unfolding l8 .
  ultimately show ?thesis
    unfolding http_link_def by blast
qed

lemma format_links_step:
  "format_links ((k, v) # kvs) links =
     (if http_link v then format_links kvs (links @ [link_entry (k, v)])
      else Inl (ValueError (''Link '' @ v @ '' is not a valid URL.'')))"
  using link_check_iff [of v] by (auto simp: link_entry_def)

lemma format_links_valid:
  "list_all (\<lambda>kv. http_link (snd kv)) kvs \<Longrightarrow> format_links kvs links = Inr (links @ map link_entry kvs)"
proof (induction kvs arbitrary: links)
  case Nil
  then show ?case by simp
next
  case (Cons kv kvs)
  then show ?case
    by (cases kv) (simp add: format_links_step del: format_links.simps)
qed

lemma format_links_invalid:
  "List.find (\<lambda>kv. \<not> http_link (snd kv)) kvs = Some (k, v) \<Longrightarrow>
   format_links kvs links = Inl (ValueError (''Link '' @ v @ '' is not a valid URL.''))"
proof (induction kvs arbitrary: links)
  case Nil
  then show ?case by simp
next
  case (Cons kv kvs)
  then show ?case
    by (cases kv) (auto simp: format_links_step simp del: format_links.simps split: if_splits)
qed

subsection \<open>The transport\<close>

lemma requests_perform: "requests (perform c r) = [r]"
  by (simp add: perform_def)

lemma result_perform:
  "result (perform c r) = (case transport c r of Inl m \<Rightarrow> Inl (TransportError m) | Inr j \<Rightarrow> Inr j)"
  by (simp add: perform_def)

subsection \<open>The request of each sending operation\<close>

lemma send_notification_posts:
  assumes "\<not> (user_ids = Some [] \<and> group_ids = Some [] \<and> role_ids = Some [])"
  shows "send_notification c source variant subject message publication_time expiration_time
           user_ids group_ids role_ids =
         perform c
           \<lparr>verb = POST, url = None, params = None,
            payload = Some (JObj
              [(''recipients'', JObj
                  [(''user_ids'', json_of_ids (or_empty user_ids)),
                   (''group_ids'', json_of_ids (or_empty group_ids)),
                   (''role_ids'', json_of_ids (or_empty role_ids))]),
               (''notification'', JObj
                  ([(''source'', JStr source),
                    (''variant'', JStr variant),
                    (''category'', JStr ''message''),
                    (''content'', JObj
                       [(''category'', JStr ''message''),
                        (''subject'', JStr subject),
                        (''message'', JStr message)])]
                   @ optional_field ''expiration_time'' (map_option (datetime_str c) expiration_time)
                   @ optional_field ''publication_time''
                       (map_option (datetime_str c) publication_time)))])\<rparr>"
proof -
  have guard: "\<not> (user_ids = group_ids \<and> group_ids = role_ids \<and> role_ids = Some [])"
    using assms by auto
  show ?thesis
    unfolding send_notification_def client_post_def Let_def if_not_P [OF guard]
    by (cases expiration_time; cases publication_time) (simp_all add: set_time_def)
qed

lemma broadcast_notification_posts:
  assumes "list_all (\<lambda>kv. http_link (snd kv)) (case action_links of None \<Rightarrow> [] | Some kvs \<Rightarrow> kvs)"
  shows "broadcast_notification c source variant subject message action_links publication_time
           expiration_time =
         perform c
           \<lparr>verb = POST, url = Some (make_url c (Some ''broadcast'')), params = None,
            payload = Some (JObj
              ([(''source'', JStr source),
                (''variant'', JStr variant),
                (''category'', JStr ''broadcast''),
                (''content'', JObj
                   ([(''category'', JStr ''broadcast''),
                     (''subject'', JStr subject),
                     (''message'', JStr message)]
                    @ (case action_links of
                         None \<Rightarrow> []
                       | Some kvs \<Rightarrow>
                           if kvs = [] then []
                           else [(''action_links'', JList (map link_entry kvs))])))]
               @ optional_field ''expiration_time'' (map_option (datetime_str c) expiration_time)
               @ optional_field ''publication_time''
                   (map_option (datetime_str c) publication_time)))\<rparr>"
proof (cases action_links)
  case None
  show ?thesis
    unfolding broadcast_notification_def client_post_def Let_def None
    by (cases expiration_time; cases publication_time) (simp_all add: set_time_def)
next
  case (Some kvs)
  with assms have "format_links kvs [] = Inr (map link_entry kvs)"
    using format_links_valid [of kvs "[]"] by simp
  then show ?thesis
    unfolding broadcast_notification_def client_post_def Let_def Some
    by (cases expiration_time; cases publication_time) (simp_all add: set_time_def)
qed

lemma broadcast_notification_raises:
  assumes "List.find (\<lambda>kv. \<not> http_link (snd kv)) kvs = Some (k, v)"
  shows "broadcast_notification c source variant subject message (Some kvs) publication_time
           expiration_time = raise (ValueError (''Link '' @ v @ '' is not a valid URL.''))"
proof -
  from assms have "kvs \<noteq> []" by auto
  moreover have "format_links kvs [] = Inl (ValueError (''Link '' @ v @ '' is not a valid URL.''))"
    using assms by (rule format_links_invalid)
  ultimately show ?thesis
    by (simp add: broadcast_notification_def)
qed

section \<open>Properties\<close>

text \<open>
  C1. A call of \<open>send_notification\<close> in which \<open>user_ids\<close>, \<open>group_ids\<close> and \<open>role_ids\<close>
  are all given as empty lists raises the invalid-argument error with the message
  "The message has no recipients." and hands no request to the transport.
\<close>

theorem send_notification_all_empty_raises:
  "send_notification c source variant subject message publication_time expiration_time
     (Some []) (Some []) (Some [])
   = \<lparr>requests = [], result = Inl (ValueError ''The message has no recipients.'')\<rparr>"
  by (simp add: send_notification_def raise_def)

text \<open>
  C2. The specification asks that a call with no user, group or role ids at all, whether
  the lists are left out or given empty, is rejected before any request. With all three
  lists left out the code does not raise: it posts a notification whose three recipient
  lists are empty.
\<close>

theorem send_notification_omitted_recipients_posts:
  "send_notification example_client ''galaxy'' ''info'' ''Subject'' ''Message'' None None
     None None None
   = \<lparr>requests =
        [\<lparr>verb = POST, url = None, params = None,
          payload = Some (JObj
            [(''recipients'', JObj
                [(''user_ids'', JList []), (''group_ids'', JList []), (''role_ids'', JList [])]),
             (''notification'', JObj
                [(''source'', JStr ''galaxy''),
                 (''variant'', JStr ''info''),
                 (''category'', JStr ''message''),
                 (''content'', JObj
                    [(''category'', JStr ''message''),
                     (''subject'', JStr ''Subject''),
                     (''message'', JStr ''Message'')])])])\<rparr>],
      result = Inr (JObj [(''ok'', JBool True)])\<rparr>"
  by (simp add: send_notification_def or_empty_def json_of_ids_def set_time_def client_post_def
      perform_def example_client_def)

text \<open>
  C3. When some value of \<open>action_links\<close> starts neither with \<^verbatim>\<open>http://\<close> nor with
  \<^verbatim>\<open>https://\<close>, \<open>broadcast_notification\<close> raises the invalid-argument error that names
  the first such link in insertion order, and hands no request to the transport, whatever
  the other links are.
\<close>

theorem broadcast_invalid_link_raises:
  assumes "(k, v) \<in> set kvs" and "\<not> http_link v"
  shows "\<exists>k' v'. List.find (\<lambda>kv. \<not> http_link (snd kv)) kvs = Some (k', v') \<and>
           broadcast_notification c source variant subject message (Some kvs) publication_time
             expiration_time
           = \<lparr>requests = [],
              result = Inl (ValueError (''Link '' @ v' @ '' is not a valid URL.''))\<rparr>"
proof -
  from assms have "\<exists>kv \<in> set kvs. \<not> http_link (snd kv)"
    by force
  then obtain kv where found: "List.find (\<lambda>kv. \<not> http_link (snd kv)) kvs = Some kv"
    by (cases "List.find (\<lambda>kv. \<not> http_link (snd kv)) kvs") (auto simp: find_None_iff)
  obtain k' v' where kv: "kv = (k', v')"
    by (cases kv)
  from found have "broadcast_notification c source variant subject message (Some kvs)
      publication_time expiration_time
    = raise (ValueError (''Link '' @ v' @ '' is not a valid URL.''))"
    unfolding kv by (rule broadcast_notification_raises)
  with found show ?thesis
    unfolding kv raise_def by blast
qed

theorem broadcast_invalid_link_raises_witness:
  "(''x'', ''ftp://bad'') \<in> set [(''docs'', ''https://a''), (''x'', ''ftp://bad''), (''y'', ''b'')]
   \<and> \<not> http_link ''ftp://bad''
   \<and> broadcast_notification example_client ''galaxy'' ''info'' ''Subject'' ''Message''
       (Some [(''docs'', ''https://a''), (''x'', ''ftp://bad''), (''y'', ''b'')]) None None
     = \<lparr>requests = [], result = Inl (ValueError ''Link ftp://bad is not a valid URL.'')\<rparr>"
proof -
  let ?kvs = "[(''docs'', ''https://a''), (''x'', ''ftp://bad''), (''y'', ''b'')]"
  have h1: "(''x'', ''ftp://bad'') \<in> set ?kvs"
    by simp
  have h2: "\<not> http_link ''ftp://bad''"
    by (simp add: http_link_def)
  have first: "List.find (\<lambda>kv. \<not> http_link (snd kv)) ?kvs = Some (''x'', ''ftp://bad'')"
    by (simp add: http_link_def)
  from broadcast_invalid_link_raises [OF h1 h2, of example_client "''galaxy''" "''info''"
      "''Subject''" "''Message''" None None]
  show ?thesis
    using h1 h2 unfolding first by simp
qed

text \<open>
  C4. With a non-empty \<open>action_links\<close> whose values all start with \<^verbatim>\<open>http://\<close> or
  \<^verbatim>\<open>https://\<close>, the content of the posted payload has \<open>action_links\<close> equal to the
  sequence of \<open>{action_name: key, link: value}\<close> objects in the insertion order of the
  input.
\<close>

theorem broadcast_action_links_in_order:
  assumes "kvs \<noteq> []" and "\<forall>(k, v) \<in> set kvs. http_link v"
  shows "\<exists>p content.
           requests (broadcast_notification c source variant subject message (Some kvs)
             publication_time expiration_time)
           = [\<lparr>verb = POST, url = Some (make_url c (Some ''broadcast'')), params = None,
               payload = Some p\<rparr>]
           \<and> json_get p ''content'' = Some content
           \<and> json_get content ''action_links''
             = Some (JList (map (\<lambda>(k, v). JObj [(''action_name'', JStr k), (''link'', JStr v)]) kvs))"
proof -
  from assms(2) have valid: "list_all (\<lambda>kv. http_link (snd kv)) (case Some kvs of None \<Rightarrow> [] | Some kvs \<Rightarrow> kvs)"
    by (auto simp: list_all_iff)
  have entries: "map link_entry kvs
      = map (\<lambda>(k, v). JObj [(''action_name'', JStr k), (''link'', JStr v)]) kvs"
    by (simp add: link_entry_def case_prod_beta)
  show ?thesis
    unfolding broadcast_notification_posts [OF valid] requests_perform
    using assms(1) by (simp add: json_get_content entries)
qed

theorem broadcast_action_links_in_order_witness:
  "[(''link_1'', ''https://a''), (''link_2'', ''http://b'')] \<noteq> []
   \<and> list_all (\<lambda>(k, v). http_link v) [(''link_1'', ''https://a''), (''link_2'', ''http://b'')]
   \<and> (\<exists>p content.
         requests (broadcast_notification example_client ''galaxy'' ''info'' ''Subject''
           ''Message'' (Some [(''link_1'', ''https://a''), (''link_2'', ''http://b'')]) None None)
         = [\<lparr>verb = POST, url = Some ''/api/notifications/broadcast'', params = None,
             payload = Some p\<rparr>]
         \<and> json_get p ''content'' = Some content
         \<and> json_get content ''action_links''
           = Some (JList
               [JObj [(''action_name'', JStr ''link_1''), (''link'', JStr ''https://a'')],
                JObj [(''action_name'', JStr ''link_2''), (''link'', JStr ''http://b'')]]))"
proof -
  let ?kvs = "[(''link_1'', ''https://a''), (''link_2'', ''http://b'')]"
  have h1: "?kvs \<noteq> []"
    by simp
  have h2: "\<forall>(k, v) \<in> set ?kvs. http_link v"
    by (simp add: http_link_def)
  have u: "make_url example_client (Some ''broadcast'') = ''/api/notifications/broadcast''"
    by (simp add: example_client_def)
  from broadcast_action_links_in_order [OF h1 h2, of example_client "''galaxy''" "''info''"
      "''Subject''" "''Message''" None None]
  show ?thesis
    using h1 h2 unfolding u by (simp add: list_all_iff)
qed

text \<open>
  C5. When at least one of \<open>user_ids\<close>, \<open>group_ids\<close>, \<open>role_ids\<close> is a non-empty list,
  \<open>send_notification\<close> issues exactly one POST, whose recipients object holds the three
  lists as supplied, element for element and in order, with the empty list for a list left
  out.
\<close>

theorem send_notification_recipients_mirror_input:
  assumes "(\<exists>xs. user_ids = Some xs \<and> xs \<noteq> []) \<or> (\<exists>xs. group_ids = Some xs \<and> xs \<noteq> [])
           \<or> (\<exists>xs. role_ids = Some xs \<and> xs \<noteq> [])"
  shows "\<exists>n. requests (send_notification c source variant subject message publication_time
                  expiration_time user_ids group_ids role_ids)
             = [\<lparr>verb = POST, url = None, params = None,
                 payload = Some (JObj
                   [(''recipients'', JObj
                       [(''user_ids'',
                           JList (map JStr (case user_ids of None \<Rightarrow> [] | Some xs \<Rightarrow> xs))),
                        (''group_ids'',
                           JList (map JStr (case group_ids of None \<Rightarrow> [] | Some xs \<Rightarrow> xs))),
                        (''role_ids'',
                           JList (map JStr (case role_ids of None \<Rightarrow> [] | Some xs \<Rightarrow> xs)))]),
                    (''notification'', n)])\<rparr>]"
proof -
  from assms have "\<not> (user_ids = Some [] \<and> group_ids = Some [] \<and> role_ids = Some [])"
    by auto
  then show ?thesis
    by (simp add: send_notification_posts requests_perform json_of_ids_def or_empty_eq)
qed

theorem send_notification_recipients_mirror_input_witness:
  "((\<exists>xs. Some [''u2'', ''u1''] = Some xs \<and> xs \<noteq> []) \<or> (\<exists>xs::string list. None = Some xs \<and> xs \<noteq> [])
      \<or> (\<exists>xs::string list. Some [] = Some xs \<and> xs \<noteq> []))
   \<and> (\<exists>n. requests (send_notification example_client ''galaxy'' ''info'' ''Subject'' ''Message''
              None None (Some [''u2'', ''u1'']) None (Some []))
          = [\<lparr>verb = POST, url = None, params = None,
              payload = Some (JObj
                [(''recipients'', JObj
                    [(''user_ids'', JList [JStr ''u2'', JStr ''u1'']),
                     (''group_ids'', JList []),
                     (''role_ids'', JList [])]),
                 (''notification'', n)])\<rparr>])"
proof -
  have h: "(\<exists>xs. Some [''u2'', ''u1''] = Some xs \<and> xs \<noteq> []) \<or> (\<exists>xs::string list. None = Some xs \<and> xs \<noteq> [])
      \<or> (\<exists>xs::string list. Some [] = Some xs \<and> xs \<noteq> [])"
    by simp
  from send_notification_recipients_mirror_input [OF h, of example_client "''galaxy''" "''info''"
      "''Subject''" "''Message''" None None]
  show ?thesis
    using h by simp
qed

text \<open>
  C6. For all four booleans, \<open>update_notification_preferences\<close> issues exactly one PUT to
  the preferences URL. Its body is \<open>{preferences: {message: {enabled, channels: {push}},
  new_shared_item: {enabled, channels: {push}}}}\<close>, filled from \<open>message_notifications\<close>,
  \<open>push_notifications_message\<close>, \<open>new_item_notifications\<close> and
  \<open>push_notifications_new_items\<close> in this order, and the call returns the transport's
  answer unchanged.
\<close>

theorem update_notification_preferences_puts:
  "update_notification_preferences c message_notifications push_notifications_message
     new_item_notifications push_notifications_new_items
   = (let r = \<lparr>verb = PUT, url = Some (make_url c (Some ''preferences'')), params = None,
               payload = Some (JObj [(''preferences'', JObj
                 [(''message'', JObj
                     [(''enabled'', JBool message_notifications),
                      (''channels'', JObj [(''push'', JBool push_notifications_message)])]),
                  (''new_shared_item'', JObj
                     [(''enabled'', JBool new_item_notifications),
                      (''channels'', JObj [(''push'', JBool push_notifications_new_items)])])])])\<rparr>
      in \<lparr>requests = [r],
          result = (case transport c r of Inl m \<Rightarrow> Inl (TransportError m) | Inr j \<Rightarrow> Inr j)\<rparr>)"
  by (simp add: update_notification_preferences_def client_put_def perform_def Let_def)

theorem update_notification_preferences_puts_witness:
  "update_notification_preferences example_client False False False False
   = \<lparr>requests =
        [\<lparr>verb = PUT, url = Some ''/api/notifications/preferences'', params = None,
          payload = Some (JObj [(''preferences'', JObj
            [(''message'', JObj
                [(''enabled'', JBool False), (''channels'', JObj [(''push'', JBool False)])]),
             (''new_shared_item'', JObj
                [(''enabled'', JBool False),
                 (''channels'', JObj [(''push'', JBool False)])])])])\<rparr>],
      result = Inr (JObj [(''ok'', JBool True)])\<rparr>"
  using update_notification_preferences_puts [of example_client False False False False]
  by (simp add: example_client_def Let_def)

text \<open>
  C7. For every limit and offset, \<open>get_user_notifications\<close> issues exactly one GET whose
  parameters are the given limit (20 when the argument is left out) and the given offset
  (\<^verbatim>\<open>None\<close> when left out), and returns the transport's answer unchanged: nothing is
  filtered, sliced or paginated by the client.
\<close>

theorem get_user_notifications_passes_parameters:
  "get_user_notifications c limit_arg offset
   = (let limit = (case limit_arg of Omitted \<Rightarrow> Some 20 | Given l \<Rightarrow> l);
          r = \<lparr>verb = GET, url = None,
               params = Some (JObj
                 [(''limit'', case limit of None \<Rightarrow> JNull | Some n \<Rightarrow> JInt n),
                  (''offset'', case offset of None \<Rightarrow> JNull | Some n \<Rightarrow> JInt n)]),
               payload = None\<rparr>
      in \<lparr>requests = [r],
          result = (case transport c r of Inl m \<Rightarrow> Inl (TransportError m) | Inr j \<Rightarrow> Inr j)\<rparr>)"
proof -
  have "json_of_int x = (case x of None \<Rightarrow> JNull | Some n \<Rightarrow> JInt n)" for x
    by (cases x) simp_all
  then show ?thesis
    by (cases limit_arg) (simp_all add: get_user_notifications_def client_get_def perform_def Let_def)
qed

theorem get_user_notifications_passes_parameters_witness:
  "get_user_notifications example_client (Given (Some 1)) (Some 1)
   = \<lparr>requests =
        [\<lparr>verb = GET, url = None,
          params = Some (JObj [(''limit'', JInt 1), (''offset'', JInt 1)]), payload = None\<rparr>],
      result = Inr (JObj [(''ok'', JBool True)])\<rparr>
   \<and> requests (get_user_notifications example_client Omitted None)
     = [\<lparr>verb = GET, url = None,
         params = Some (JObj [(''limit'', JInt 20), (''offset'', JNull)]), payload = None\<rparr>]"
  using get_user_notifications_passes_parameters [of example_client "Given (Some 1)" "Some 1"]
    get_user_notifications_passes_parameters [of example_client Omitted None]
  by (simp add: example_client_def Let_def)

text \<open>
  C8. A call of \<open>broadcast_notification\<close> whose links all pass the check issues a single
  POST whose body is \<open>{source, variant, category: "broadcast", content}\<close> followed by
  \<open>expiration_time\<close> and \<open>publication_time\<close>, each present exactly when the argument is
  supplied and then the timestamp's string form. A call of \<open>send_notification\<close> that is
  not rejected carries the two fields in its notification object in the same way.
\<close>

theorem timestamps_included_when_supplied:
  assumes "\<forall>(k, v) \<in> set (case action_links of None \<Rightarrow> [] | Some kvs \<Rightarrow> kvs). http_link v"
    and "\<not> (user_ids = Some [] \<and> group_ids = Some [] \<and> role_ids = Some [])"
  shows "(\<exists>content.
            requests (broadcast_notification c source variant subject message action_links
              publication_time expiration_time)
            = [\<lparr>verb = POST, url = Some (make_url c (Some ''broadcast'')), params = None,
                payload = Some (JObj
                  ([(''source'', JStr source),
                    (''variant'', JStr variant),
                    (''category'', JStr ''broadcast''),
                    (''content'', content)]
                   @ optional_field ''expiration_time'' (map_option (datetime_str c) expiration_time)
                   @ optional_field ''publication_time''
                       (map_option (datetime_str c) publication_time)))\<rparr>])
       \<and> (\<exists>recipients content.
            requests (send_notification c source variant subject message publication_time
              expiration_time user_ids group_ids role_ids)
            = [\<lparr>verb = POST, url = None, params = None,
                payload = Some (JObj
                  [(''recipients'', recipients),
                   (''notification'', JObj
                      ([(''source'', JStr source),
                        (''variant'', JStr variant),
                        (''category'', JStr ''message''),
                        (''content'', content)]
                       @ optional_field ''expiration_time''
                           (map_option (datetime_str c) expiration_time)
                       @ optional_field ''publication_time''
                           (map_option (datetime_str c) publication_time)))])\<rparr>])"
proof -
  from assms(1) have valid:
    "list_all (\<lambda>kv. http_link (snd kv)) (case action_links of None \<Rightarrow> [] | Some kvs \<Rightarrow> kvs)"
    by (auto simp: list_all_iff)
  have broadcast: "\<exists>content.
      requests (broadcast_notification c source variant subject message action_links
        publication_time expiration_time)
      = [\<lparr>verb = POST, url = Some (make_url c (Some ''broadcast'')), params = None,
          payload = Some (JObj
            ([(''source'', JStr source),
              (''variant'', JStr variant),
              (''category'', JStr ''broadcast''),
              (''content'', content)]
             @ optional_field ''expiration_time'' (map_option (datetime_str c) expiration_time)
             @ optional_field ''publication_time''
                 (map_option (datetime_str c) publication_time)))\<rparr>]"
    unfolding broadcast_notification_posts [OF valid] requests_perform by simp
  have send: "\<exists>recipients content.
      requests (send_notification c source variant subject message publication_time
        expiration_time user_ids group_ids role_ids)
      = [\<lparr>verb = POST, url = None, params = None,
          payload = Some (JObj
            [(''recipients'', recipients),
             (''notification'', JObj
                ([(''source'', JStr source),
                  (''variant'', JStr variant),
                  (''category'', JStr ''message''),
                  (''content'', content)]
                 @ optional_field ''expiration_time''
                     (map_option (datetime_str c) expiration_time)
                 @ optional_field ''publication_time''
                     (map_option (datetime_str c) publication_time)))])\<rparr>]"
    unfolding send_notification_posts [OF assms(2)] requests_perform by simp
  from broadcast send show ?thesis ..
qed

theorem timestamps_included_when_supplied_witness:
  "list_all (\<lambda>(k, v). http_link v)
     (case Some [(''link_1'', ''https://link1.de'')] of None \<Rightarrow> [] | Some kvs \<Rightarrow> kvs)
   \<and> \<not> (Some [''u1''] = Some [] \<and> (None :: string list option) = Some []
        \<and> (None :: string list option) = Some [])
   \<and> (\<exists>content.
         requests (broadcast_notification example_client ''galaxy'' ''info'' ''Subject''
           ''Message'' (Some [(''link_1'', ''https://link1.de'')]) None
           (Some ''2026-11-05 09:30:00''))
         = [\<lparr>verb = POST, url = Some ''/api/notifications/broadcast'', params = None,
             payload = Some (JObj
               [(''source'', JStr ''galaxy''),
                (''variant'', JStr ''info''),
                (''category'', JStr ''broadcast''),
                (''content'', content),
                (''expiration_time'', JStr ''2026-11-05 09:30:00'')])\<rparr>])
   \<and> (\<exists>recipients content.
         requests (send_notification example_client ''galaxy'' ''info'' ''Subject'' ''Message''
           None (Some ''2026-11-05 09:30:00'') (Some [''u1'']) None None)
         = [\<lparr>verb = POST, url = None, params = None,
             payload = Some (JObj
               [(''recipients'', recipients),
                (''notification'', JObj
                   [(''source'', JStr ''galaxy''),
                    (''variant'', JStr ''info''),
                    (''category'', JStr ''message''),
                    (''content'', content),
                    (''expiration_time'', JStr ''2026-11-05 09:30:00'')])])\<rparr>])"
proof -
  let ?links = "Some [(''link_1'', ''https://link1.de'')]"
  have h1: "\<forall>(k, v) \<in> set (case ?links of None \<Rightarrow> [] | Some kvs \<Rightarrow> kvs). http_link v"
    by (simp add: http_link_def)
  have h2: "\<not> (Some [''u1''] = Some [] \<and> (None :: string list option) = Some []
      \<and> (None :: string list option) = Some [])"
    by simp
  have u: "make_url example_client (Some ''broadcast'') = ''/api/notifications/broadcast''"
    and s: "datetime_str example_client ''2026-11-05 09:30:00'' = ''2026-11-05 09:30:00''"
    by (simp_all add: example_client_def)
  from timestamps_included_when_supplied [OF h1 h2, of example_client "''galaxy''" "''info''"
      "''Subject''" "''Message''" None "Some ''2026-11-05 09:30:00''"]
  show ?thesis
    using h1 unfolding u by (simp add: s list_all_iff)
qed

text \<open>
  C9. \<open>broadcast_notification\<close> with an empty \<open>action_links\<close> dictionary behaves exactly
  as with \<open>action_links\<close> left out: the POST is issued, and the content of its payload is
  \<open>{category, subject, message}\<close> with no \<open>action_links\<close> key at all.
\<close>

theorem broadcast_empty_action_links_as_omitted:
  "broadcast_notification c source variant subject message (Some []) publication_time
     expiration_time
   = broadcast_notification c source variant subject message None publication_time
       expiration_time
   \<and> (\<exists>p content.
         requests (broadcast_notification c source variant subject message (Some [])
           publication_time expiration_time)
         = [\<lparr>verb = POST, url = Some (make_url c (Some ''broadcast'')), params = None,
             payload = Some p\<rparr>]
         \<and> json_get p ''content'' = Some content
         \<and> content = JObj [(''category'', JStr ''broadcast''), (''subject'', JStr subject),
                           (''message'', JStr message)]
         \<and> json_get content ''action_links'' = None)"
proof -
  have valid: "list_all (\<lambda>kv. http_link (snd kv))
      (case Some [] of None \<Rightarrow> [] | Some kvs \<Rightarrow> kvs)"
    by simp
  have same: "broadcast_notification c source variant subject message (Some []) publication_time
      expiration_time
    = broadcast_notification c source variant subject message None publication_time
        expiration_time"
    by (simp add: broadcast_notification_def)
  have posted: "\<exists>p content.
      requests (broadcast_notification c source variant subject message (Some [])
        publication_time expiration_time)
      = [\<lparr>verb = POST, url = Some (make_url c (Some ''broadcast'')), params = None,
          payload = Some p\<rparr>]
      \<and> json_get p ''content'' = Some content
      \<and> content = JObj [(''category'', JStr ''broadcast''), (''subject'', JStr subject),
                        (''message'', JStr message)]
      \<and> json_get content ''action_links'' = None"
    unfolding broadcast_notification_posts [OF valid] requests_perform
    by (simp add: json_get_content)
  from same posted show ?thesis ..
qed

text \<open>
  C10. \<open>send_notification\<close> raises an invalid-argument error if and only if \<open>user_ids\<close>,
  \<open>group_ids\<close> and \<open>role_ids\<close> are all three given as the empty list. In every other
  case, also when all three are left out, it issues exactly one POST whose recipients
  object holds the given lists, and the empty list for each list left out.
\<close>

theorem send_notification_raises_iff_all_given_empty:
  "((\<exists>m. result (send_notification c source variant subject message publication_time
              expiration_time user_ids group_ids role_ids) = Inl (ValueError m))
      \<longleftrightarrow> user_ids = Some [] \<and> group_ids = Some [] \<and> role_ids = Some [])
   \<and> (\<not> (user_ids = Some [] \<and> group_ids = Some [] \<and> role_ids = Some []) \<longrightarrow>
        (\<exists>n. requests (send_notification c source variant subject message publication_time
                 expiration_time user_ids group_ids role_ids)
            = [\<lparr>verb = POST, url = None, params = None,
                payload = Some (JObj
                  [(''recipients'', JObj
                      [(''user_ids'',
                          JList (map JStr (case user_ids of None \<Rightarrow> [] | Some xs \<Rightarrow> xs))),
                       (''group_ids'',
                          JList (map JStr (case group_ids of None \<Rightarrow> [] | Some xs \<Rightarrow> xs))),
                       (''role_ids'',
                          JList (map JStr (case role_ids of None \<Rightarrow> [] | Some xs \<Rightarrow> xs)))]),
                   (''notification'', n)])\<rparr>]))"
proof (cases "user_ids = Some [] \<and> group_ids = Some [] \<and> role_ids = Some []")
  case True
  then show ?thesis
    by (simp add: send_notification_def raise_def)
next
  case False
  have "result (send_notification c source variant subject message publication_time
      expiration_time user_ids group_ids role_ids) \<noteq> Inl (ValueError m)" for m
    unfolding send_notification_posts [OF False] result_perform
    by (simp split: sum.splits)
  moreover have "\<exists>n. requests (send_notification c source variant subject message
      publication_time expiration_time user_ids group_ids role_ids)
    = [\<lparr>verb = POST, url = None, params = None,
        payload = Some (JObj
          [(''recipients'', JObj
              [(''user_ids'',
                  JList (map JStr (case user_ids of None \<Rightarrow> [] | Some xs \<Rightarrow> xs))),
               (''group_ids'',
                  JList (map JStr (case group_ids of None \<Rightarrow> [] | Some xs \<Rightarrow> xs))),
               (''role_ids'',
                  JList (map JStr (case role_ids of None \<Rightarrow> [] | Some xs \<Rightarrow> xs)))]),
           (''notification'', n)])\<rparr>]"
    unfolding send_notification_posts [OF False] requests_perform
    by (simp add: json_of_ids_def or_empty_eq)
  ultimately show ?thesis
    using False by blast
qed

theorem send_notification_raises_iff_all_given_empty_witness:
  "\<not> ((None :: string list option) = Some [] \<and> (None :: string list option) = Some []
       \<and> (None :: string list option) = Some [])
   \<and> (\<forall>m. result (send_notification example_client ''galaxy'' ''info'' ''Subject'' ''Message''
              None None None None None) \<noteq> Inl (ValueError m))
   \<and> (\<exists>n. requests (send_notification example_client ''galaxy'' ''info'' ''Subject'' ''Message''
              None None None None None)
          = [\<lparr>verb = POST, url = None, params = None,
              payload = Some (JObj
                [(''recipients'', JObj
                    [(''user_ids'', JList []), (''group_ids'', JList []),
                     (''role_ids'', JList [])]),
                 (''notification'', n)])\<rparr>])"
proof -
  have h: "\<not> ((None :: string list option) = Some [] \<and> (None :: string list option) = Some []
      \<and> (None :: string list option) = Some [])"
    by simp
  from send_notification_raises_iff_all_given_empty [of example_client "''galaxy''" "''info''"
      "''Subject''" "''Message''" None None None None None]
  show ?thesis
    using h by simp
qed

end
